theory Spec2Isabelle
  imports
    Main
    "HOL-Library.Word"
    "HOL-Library.Multiset"
    "HOL-Library.Sublist"
    "HOL-Library.Option_ord"
    "HOL-Library.Product_Lexorder"
    "HOL-Library.Char_ord"
    "HOL-Library.List_Lexorder"
begin

section \<open>The task manager of \<^verbatim>\<open>todo.py\<close>\<close>

text \<open>
  The program keeps a list of \<^verbatim>\<open>Task\<close> objects in the file \<^verbatim>\<open>.todo.pickle\<close>. One run
  loads the list, performs at most one action chosen by the command line, writes the list
  back and exits. The classes \<^verbatim>\<open>Task\<close> and \<^verbatim>\<open>Tasks\<close> and the function \<^verbatim>\<open>main\<close> are
  embedded below. A method \<^verbatim>\<open>Tasks.m\<close> is the function \<open>Tasks_m\<close>; it takes the list
  \<^verbatim>\<open>self.tasks\<close> and returns the list as the call leaves it, together with the lines it
  prints. A call that raises returns \<open>Inl\<close> of the exception; the two methods that can
  raise do so before they print or change anything.
\<close>

subsection \<open>Values\<close>

text \<open>
  A \<^verbatim>\<open>uuid.UUID\<close> is a 128-bit number and only ever compared for equality. A
  \<^verbatim>\<open>datetime\<close> is a point on the time line of the local clock. A string is the sequence of
  its characters. The due date of a task is what \<^verbatim>\<open>main\<close> hands to \<^verbatim>\<open>add\<close>: the string of
  \<^verbatim>\<open>--due\<close> as it was typed (\<^verbatim>\<open>type=str\<close>; nothing parses it), or \<^verbatim>\<open>None\<close>.
\<close>

type_synonym uuid = "128 word"

type_synonym datetime = int

record task =
  created :: datetime
  completed :: "datetime option"
  name :: string
  unique_id :: uuid
  priority :: int
  due_date :: "string option"

text \<open>The exceptions the program can meet; \<open>OtherError c\<close> is any other class \<open>c\<close>.\<close>

datatype exn =
  FileNotFoundError | PermissionError | EOFError | UnpicklingError | ValueError
  | OtherError string

text \<open>
  What a run takes from the Python library and its surroundings: the constructor
  \<^verbatim>\<open>uuid.UUID\<close> applied to a string (\<open>None\<close> when it raises \<^verbatim>\<open>ValueError\<close>), the value that
  \<^verbatim>\<open>uuid.uuid4()\<close> and the value that \<^verbatim>\<open>datetime.now()\<close> return in this run, and the method
  \<^verbatim>\<open>str.lower\<close>.
\<close>

record runtime =
  UUID :: "string \<Rightarrow> uuid option"
  uuid4 :: uuid
  now :: datetime
  str_lower :: "string \<Rightarrow> string"

subsection \<open>Pickles and files\<close>

text \<open>
  Modelled from the documentation and the behaviour of Python's \<^verbatim>\<open>pickle\<close> module, which
  is not part of the repository. \<^verbatim>\<open>pickle.dump\<close> writes the pickled representation of the list, a sequence of
  opcodes; \<^verbatim>\<open>pickle.load\<close> reads such a representation and returns the list it
  describes. On bytes that end where the next opcode would start (the file of no bytes, or
  a pickle cut off between two opcodes) it raises \<^verbatim>\<open>EOFError\<close> (ran out of input); on a
  pickle cut off anywhere else it raises \<^verbatim>\<open>UnpicklingError\<close> (pickle data was truncated); on
  other bytes it raises what the damage leads to. The contents of a file are kept at this
  level, not as bytes.
\<close>

datatype contents =
  Pickle "task list" | Cut_before_opcode | Cut_inside_opcode | Unloadable exn

definition pickle_dump :: "task list \<Rightarrow> contents" where
  "pickle_dump tasks = Pickle tasks"

definition pickle_load :: "contents \<Rightarrow> exn + task list" where
  "pickle_load pickle_file =
     (case pickle_file of
        Pickle tasks \<Rightarrow> Inr tasks
      | Cut_before_opcode \<Rightarrow> Inl EOFError
      | Cut_inside_opcode \<Rightarrow> Inl UnpicklingError
      | Unloadable e \<Rightarrow> Inl e)"

text \<open>
  The file system: what each path holds, if anything, and whether the process may open
  the path for reading and for writing (to truncate the file there, or to create it in
  its directory). The two permissions are independent of each other.
\<close>

record filesystem =
  holds :: "string \<Rightarrow> contents option"
  may_read :: "string \<Rightarrow> bool"
  may_write :: "string \<Rightarrow> bool"

text \<open>
  A printed line: a text, the line \<^verbatim>\<open>Created task <uuid>\<close>, or the row of a task in the
  table of \<^verbatim>\<open>print_tasks\<close> or of \<^verbatim>\<open>report\<close>. The text of a row is determined by its task
  and the clock and is not spelled out.
\<close>

datatype line = Text string | CreatedTask uuid | Row task | ReportRow task

datatype event = is_Print: Print line | is_Write: Write string contents

datatype outcome = Exit nat | Uncaught exn

subsection \<open>Class \<^verbatim>\<open>Task\<close>\<close>

definition Task_init :: "runtime \<Rightarrow> string \<Rightarrow> int \<Rightarrow> string option \<Rightarrow> task" where
  "Task_init rt nm prio due =
     \<lparr>created = now rt, completed = None, name = nm, unique_id = uuid4 rt,
      priority = prio, due_date = due\<rparr>"

definition completed_task :: "runtime \<Rightarrow> task \<Rightarrow> task" where
  "completed_task rt task = task\<lparr>completed := Some (now rt)\<rparr>"

subsection \<open>Loading and saving\<close>

definition todo_pickle :: string where
  "todo_pickle = ''.todo.pickle''"

text \<open>\<^verbatim>\<open>open(path, 'rb')\<close>.\<close>

definition open_rb :: "filesystem \<Rightarrow> string \<Rightarrow> exn + contents" where
  "open_rb fs path =
     (case holds fs path of
        None \<Rightarrow> Inl FileNotFoundError
      | Some pickle_file \<Rightarrow> if may_read fs path then Inr pickle_file else Inl PermissionError)"

text \<open>\<^verbatim>\<open>try: body except cls: handler\<close>, for a handler that yields a value.\<close>

definition except :: "exn + 'a \<Rightarrow> exn \<Rightarrow> 'a \<Rightarrow> exn + 'a" where
  "except body cls handler =
     (case body of
        Inl e \<Rightarrow> if e = cls then Inr handler else Inl e
      | Inr v \<Rightarrow> Inr v)"

text \<open>
  \<^verbatim>\<open>Tasks.__init__\<close>: the inner \<^verbatim>\<open>try\<close> guards \<^verbatim>\<open>pickle.load\<close> only, the outer one guards
  \<^verbatim>\<open>open\<close> and everything inside the \<^verbatim>\<open>with\<close> block.
\<close>

definition Tasks_init :: "filesystem \<Rightarrow> exn + task list" where
  "Tasks_init fs =
     except
       (case open_rb fs todo_pickle of
          Inl e \<Rightarrow> Inl e
        | Inr pickle_file \<Rightarrow> except (pickle_load pickle_file) EOFError [])
       FileNotFoundError []"

text \<open>
  \<^verbatim>\<open>pickle_tasks\<close>: \<^verbatim>\<open>open(path, 'wb')\<close> creates the file or truncates it, and the dump
  replaces what it held; where the process may not write, \<^verbatim>\<open>open\<close> raises and the file
  system stays as it is. Nothing in \<^verbatim>\<open>pickle_tasks\<close> or in \<^verbatim>\<open>main\<close> catches that.
\<close>

definition pickle_tasks :: "task list \<Rightarrow> filesystem \<Rightarrow> exn + filesystem" where
  "pickle_tasks tasks fs =
     (if may_write fs todo_pickle
      then Inr (fs\<lparr>holds := (holds fs)(todo_pickle \<mapsto> pickle_dump tasks)\<rparr>)
      else Inl PermissionError)"

subsection \<open>Printing\<close>

text \<open>The format \<^verbatim>\<open>{s:<n}\<close> of a string: padded with spaces on the right, never cut.\<close>

definition ljust :: "nat \<Rightarrow> string \<Rightarrow> string" where
  "ljust n s = s @ replicate (n - length s) CHR '' ''"

definition dashes :: "nat \<Rightarrow> string" where
  "dashes n = replicate n CHR ''-''"

definition print_tasks :: "task list \<Rightarrow> line list" where
  "print_tasks tasks =
     [Text (ljust 8 ''ID'' @ '' '' @ ljust 4 ''Age'' @ '' '' @ ljust 10 ''Due Date'' @ '' ''
            @ ljust 10 ''Priority'' @ '' '' @ ''Task''),
      Text (ljust 8 (dashes 8) @ '' '' @ ljust 4 ''---'' @ '' '' @ ljust 10 (dashes 10) @ '' ''
            @ ljust 10 (dashes 10) @ '' '' @ dashes 8)]
     @ map Row tasks"

text \<open>The tasks of the rows of a table, in the order of printing.\<close>

fun shown :: "line list \<Rightarrow> task list" where
  "shown [] = []"
| "shown (Row t # ls) = t # shown ls"
| "shown (ReportRow t # ls) = t # shown ls"
| "shown (_ # ls) = shown ls"

subsection \<open>Class \<^verbatim>\<open>Tasks\<close>\<close>

text \<open>
  The three methods that sort use the key
  \<^verbatim>\<open>lambda x: (x.due_date is None, x.due_date, x.priority)\<close>. Python compares tuples
  lexicographically and \<^verbatim>\<open>False < True\<close>; two due dates are compared only when the first
  components agree, that is when both are \<^verbatim>\<open>None\<close> (and equal) or both are strings, and
  strings are compared character by character. \<^verbatim>\<open>list.sort\<close> is a stable sort, as
  \<^const>\<open>sort_key\<close> is.
\<close>

definition Tasks_list :: "task list \<Rightarrow> task list \<times> line list" where
  "Tasks_list tasks =
     (let uncompleted_tasks = [task \<leftarrow> tasks. completed task = None];
          uncompleted_tasks =
            sort_key (\<lambda>x. (due_date x = None, due_date x, priority x)) uncompleted_tasks
      in (tasks, print_tasks uncompleted_tasks))"

definition Tasks_report :: "task list \<Rightarrow> task list \<times> line list" where
  "Tasks_report tasks =
     (let tasks' = sort_key (\<lambda>x. (due_date x = None, due_date x, priority x)) tasks
      in (tasks',
          [Text (ljust 8 ''ID'' @ '' '' @ ljust 4 ''Age'' @ '' '' @ ljust 10 ''Due Date'' @ '' ''
                 @ ljust 10 ''Priority'' @ '' '' @ ljust 16 ''Task'' @ '' ''
                 @ ljust 19 ''Created'' @ '' '' @ ljust 19 ''Completed''),
           Text (ljust 8 (dashes 8) @ '' '' @ ljust 4 ''---'' @ '' '' @ ljust 10 (dashes 10)
                 @ '' '' @ ljust 10 (dashes 10) @ '' '' @ ljust 16 (dashes 8) @ '' ''
                 @ ljust 19 (dashes 19) @ '' '' @ ljust 19 (dashes 19))]
          @ map ReportRow tasks'))"

text \<open>
  The loop \<^verbatim>\<open>for task in self.tasks: if task.unique_id == uuid.UUID(unique_id): ...; return\<close>
  of \<^verbatim>\<open>done\<close> and \<^verbatim>\<open>delete\<close>: the position at which the body runs, \<open>None\<close> when the loop
  ends without it. \<^verbatim>\<open>uuid.UUID(unique_id)\<close> is evaluated in every iteration, and in
  none when the list is empty.
\<close>

fun find_task :: "(string \<Rightarrow> uuid option) \<Rightarrow> string \<Rightarrow> task list \<Rightarrow> exn + nat option" where
  "find_task parse unique_id_str [] = Inr None"
| "find_task parse unique_id_str (task # tasks) =
     (case parse unique_id_str of
        None \<Rightarrow> Inl ValueError
      | Some u \<Rightarrow>
          if unique_id task = u then Inr (Some 0)
          else (case find_task parse unique_id_str tasks of
                  Inl e \<Rightarrow> Inl e
                | Inr None \<Rightarrow> Inr None
                | Inr (Some i) \<Rightarrow> Inr (Some (Suc i))))"

definition Tasks_done :: "runtime \<Rightarrow> string \<Rightarrow> task list \<Rightarrow> exn + task list \<times> line list" where
  "Tasks_done rt unique_id_str tasks =
     (case find_task (UUID rt) unique_id_str tasks of
        Inl e \<Rightarrow> Inl e
      | Inr (Some i) \<Rightarrow>
          Inr (tasks[i := completed_task rt (tasks ! i)],
               [Text (''Completed task '' @ unique_id_str)])
      | Inr None \<Rightarrow> Inr (tasks, [Text (''No task found with ID '' @ unique_id_str @ ''.'')]))"

text \<open>
  \<^verbatim>\<open>self.tasks.remove(task)\<close> removes the first element equal to the task found, which
  is that task: no earlier element has its id.
\<close>

definition Tasks_delete :: "runtime \<Rightarrow> string \<Rightarrow> task list \<Rightarrow> exn + task list \<times> line list" where
  "Tasks_delete rt unique_id_str tasks =
     (case find_task (UUID rt) unique_id_str tasks of
        Inl e \<Rightarrow> Inl e
      | Inr (Some i) \<Rightarrow>
          Inr (remove1 (tasks ! i) tasks, [Text (''Deleted task '' @ unique_id_str)])
      | Inr None \<Rightarrow> Inr (tasks, [Text (''No task found with ID '' @ unique_id_str @ ''.'')]))"

text \<open>
  \<^verbatim>\<open>query\<close>: the test \<^verbatim>\<open>term.lower() in task.name.lower()\<close> asks whether the one string
  occurs in the other as a contiguous part.
\<close>

definition Tasks_query :: "runtime \<Rightarrow> string list \<Rightarrow> task list \<Rightarrow> task list \<times> line list" where
  "Tasks_query rt terms tasks =
     (let uncompleted_tasks = [task \<leftarrow> tasks. completed task = None];
          uncompleted_tasks =
            sort_key (\<lambda>x. (due_date x = None, due_date x, priority x)) uncompleted_tasks;
          results = [task. task \<leftarrow> uncompleted_tasks, term \<leftarrow> terms,
                           sublist (str_lower rt term) (str_lower rt (name task))]
      in (tasks, print_tasks results))"

definition add_error :: string where
  "add_error = ''There was an error in creating your task. Run '' @ [CHR 0x22] @ ''todo -h''
               @ [CHR 0x22] @ '' for usage instructions.''"

text \<open>
  \<^verbatim>\<open>add\<close>: \<^verbatim>\<open>not name\<close> holds of the empty string; the name is a string, so
  \<^verbatim>\<open>not isinstance(name, str)\<close> is false.
\<close>

definition Tasks_add ::
  "runtime \<Rightarrow> string \<Rightarrow> int \<Rightarrow> string option \<Rightarrow> task list \<Rightarrow> task list \<times> line list" where
  "Tasks_add rt nm prio due tasks =
     (if nm = [] then (tasks, [Text add_error])
      else (let task = Task_init rt nm prio due
            in (tasks @ [task], [CreatedTask (unique_id task)])))"

subsection \<open>\<^verbatim>\<open>main\<close>\<close>

text \<open>The parsed command line. A string or list option is \<^verbatim>\<open>None\<close> when the flag is absent.\<close>

record cmdline =
  arg_add :: "string option"
  arg_priority :: int
  arg_due :: "string option"
  arg_query :: "string list option"
  arg_list :: bool
  arg_done :: "string option"
  arg_delete :: "string option"
  arg_report :: bool

text \<open>
  The truth value of an optional string or list in a condition: \<^verbatim>\<open>None\<close>, the empty
  string and the empty list are false.
\<close>

fun truthy :: "'a list option \<Rightarrow> bool" where
  "truthy None = False"
| "truthy (Some xs) = (xs \<noteq> [])"

text \<open>
  The chain \<^verbatim>\<open>if args.add: ... elif args.list: ... elif args.report: ...\<close>; with no branch
  taken nothing happens. The value of a flag is read only where the flag is true.
\<close>

definition action :: "runtime \<Rightarrow> cmdline \<Rightarrow> task list \<Rightarrow> exn + task list \<times> line list" where
  "action rt args tasks =
     (if truthy (arg_add args) then
        Inr (Tasks_add rt (the (arg_add args)) (arg_priority args) (arg_due args) tasks)
      else if arg_list args then Inr (Tasks_list tasks)
      else if truthy (arg_query args) then Inr (Tasks_query rt (the (arg_query args)) tasks)
      else if truthy (arg_done args) then Tasks_done rt (the (arg_done args)) tasks
      else if truthy (arg_delete args) then Tasks_delete rt (the (arg_delete args)) tasks
      else if arg_report args then Inr (Tasks_report tasks)
      else Inr (tasks, []))"

text \<open>
  \<^verbatim>\<open>main\<close> after the command line is parsed: how the process ends, the file system it
  leaves, and what it printed and wrote, in order. An exception that nothing catches ends
  the process at once; \<^verbatim>\<open>exit()\<close> ends it with status 0.
\<close>

definition main :: "runtime \<Rightarrow> cmdline \<Rightarrow> filesystem \<Rightarrow> outcome \<times> filesystem \<times> event list" where
  "main rt args fs =
     (case Tasks_init fs of
        Inl e \<Rightarrow> (Uncaught e, fs, [])
      | Inr tasks \<Rightarrow>
          (case action rt args tasks of
             Inl e \<Rightarrow> (Uncaught e, fs, [])
           | Inr (tasks', printed) \<Rightarrow>
               (case pickle_tasks tasks' fs of
                  Inl e \<Rightarrow> (Uncaught e, fs, map Print printed)
                | Inr fs' \<Rightarrow>
                    (Exit 0, fs', map Print printed @ [Write todo_pickle (pickle_dump tasks')]))))"

text \<open>The lines among the events of a run, in the order of printing.\<close>

fun printed_lines :: "event list \<Rightarrow> line list" where
  "printed_lines [] = []"
| "printed_lines (Print l # es) = l # printed_lines es"
| "printed_lines (Write path b # es) = printed_lines es"

subsection \<open>A runtime, file systems and a few tasks for the examples\<close>

text \<open>
  \<^verbatim>\<open>uuid.UUID\<close> as far as the examples need it: it accepts the identifiers written out in
  full below and raises \<^verbatim>\<open>ValueError\<close> on the other strings used, none of which has the 32
  hexadecimal digits of an identifier.
\<close>

definition example_UUID :: "string \<Rightarrow> uuid option" where
  "example_UUID s =
     (if s = ''00000000-0000-0000-0000-000000000001'' then Some 1
      else if s = ''00000000-0000-0000-0000-000000000002'' then Some 2
      else if s = ''00000000-0000-0000-0000-000000000003'' then Some 3
      else if s = ''00000000-0000-0000-0000-000000000004'' then Some 4
      else if s = ''00000000-0000-0000-0000-000000000009'' then Some 9
      else None)"

text \<open>
  \<^verbatim>\<open>str.lower\<close> as far as the examples need it: on strings of ASCII characters, where it
  replaces the letters A to Z.
\<close>

definition example_lower :: "string \<Rightarrow> string" where
  "example_lower s =
     map (\<lambda>c. case map_of (zip ''ABCDEFGHIJKLMNOPQRSTUVWXYZ'' ''abcdefghijklmnopqrstuvwxyz'') c of
                None \<Rightarrow> c
              | Some l \<Rightarrow> l) s"

definition example_rt :: runtime where
  "example_rt = \<lparr>UUID = example_UUID, uuid4 = 9, now = 500, str_lower = example_lower\<rparr>"

text \<open>
  A directory without \<^verbatim>\<open>.todo.pickle\<close>, and one in which the file holds the given contents;
  the same with the file read-only (and the directory too), and with a file that may be
  written but not read.
\<close>

definition no_file :: filesystem where
  "no_file = \<lparr>holds = Map.empty, may_read = (\<lambda>path. True), may_write = (\<lambda>path. True)\<rparr>"

definition stored :: "contents \<Rightarrow> filesystem" where
  "stored pickle_file = no_file\<lparr>holds := [todo_pickle \<mapsto> pickle_file]\<rparr>"

definition read_only :: "filesystem \<Rightarrow> filesystem" where
  "read_only fs = fs\<lparr>may_write := (\<lambda>path. False)\<rparr>"

definition write_only :: "filesystem \<Rightarrow> filesystem" where
  "write_only fs = fs\<lparr>may_read := (\<lambda>path. False)\<rparr>"

text \<open>
  Five tasks, one of them completed. Their due dates are strings as \<^verbatim>\<open>--due\<close> takes them,
  in the day/month/year form of its help text.
\<close>

definition milk :: task where
  "milk = \<lparr>created = 100, completed = None, name = ''Buy milk'', unique_id = 1,
            priority = 2, due_date = Some ''01/01/2024''\<rparr>"

definition report :: task where
  "report = \<lparr>created = 200, completed = None, name = ''Write report'', unique_id = 2,
              priority = 1, due_date = None\<rparr>"

definition rent :: task where
  "rent = \<lparr>created = 300, completed = None, name = ''Pay rent'', unique_id = 3,
            priority = 1, due_date = Some ''01/01/2024''\<rparr>"

definition call :: task where
  "call = \<lparr>created = 50, completed = Some 90, name = ''Call Ann'', unique_id = 4,
            priority = 3, due_date = Some ''01/12/2023''\<rparr>"

definition taxes :: task where
  "taxes = \<lparr>created = 250, completed = None, name = ''File taxes'', unique_id = 5,
             priority = 1, due_date = Some ''01/12/2023''\<rparr>"

definition no_flags :: cmdline where
  "no_flags =
     \<lparr>arg_add = None, arg_priority = 1, arg_due = None, arg_query = None, arg_list = False,
      arg_done = None, arg_delete = None, arg_report = False\<rparr>"

section \<open>Properties\<close>

lemmas example_defs =
  example_rt_def example_UUID_def example_lower_def milk_def report_def rent_def call_def
  taxes_def no_flags_def

lemmas example_fs_defs =
  no_file_def stored_def read_only_def write_only_def

subsection \<open>The rows of a table\<close>

lemma shown_map_Row: "shown (map Row ts) = ts"
  by (induction ts) simp_all

lemma shown_map_ReportRow: "shown (map ReportRow ts) = ts"
  by (induction ts) simp_all

lemma shown_print_tasks: "shown (print_tasks ts) = ts"
  by (simp add: print_tasks_def shown_map_Row)

lemma printed_lines_map_Print: "printed_lines (map Print ls @ es) = ls @ printed_lines es"
  by (induction ls) simp_all

lemma shown_Tasks_list:
  "shown (snd (Tasks_list tasks)) =
     sort_key (\<lambda>x. (due_date x = None, due_date x, priority x))
       [task \<leftarrow> tasks. completed task = None]"
  by (simp add: Tasks_list_def shown_print_tasks)

lemma fst_Tasks_list: "fst (Tasks_list tasks) = tasks"
  by (simp add: Tasks_list_def Let_def)

lemma fst_Tasks_report:
  "fst (Tasks_report tasks) = sort_key (\<lambda>x. (due_date x = None, due_date x, priority x)) tasks"
  by (simp add: Tasks_report_def Let_def)

lemma shown_Tasks_report:
  "shown (snd (Tasks_report tasks)) =
     sort_key (\<lambda>x. (due_date x = None, due_date x, priority x)) tasks"
  by (simp add: Tasks_report_def Let_def shown_map_ReportRow)

subsection \<open>The order of the sort key\<close>

lemma key_le:
  fixes x y :: task
  shows "(due_date x = None, due_date x, priority x) \<le> (due_date y = None, due_date y, priority y)
     \<longleftrightarrow>
     (due_date x \<noteq> None \<and> due_date y = None)
     \<or> (due_date x = None \<and> due_date y = None \<and> priority x \<le> priority y)
     \<or> (\<exists>a b. due_date x = Some a \<and> due_date y = Some b
            \<and> (a < b \<or> a = b \<and> priority x \<le> priority y))"
  by (cases "due_date x"; cases "due_date y") auto

text \<open>
  What the sort guarantees, for any two positions of the sorted list, the first before
  the second: a task without a due date is followed only by such tasks; of two due dates
  the first is not the greater string; and on equal due dates (or none) the first
  priority is not the greater number.
\<close>

lemma sorted_by_key:
  fixes tasks :: "task list"
  defines "out \<equiv> sort_key (\<lambda>x. (due_date x = None, due_date x, priority x)) tasks"
  assumes "i < j" and "j < length out"
  shows "(due_date (out ! i) = None \<longrightarrow> due_date (out ! j) = None)
     \<and> (\<forall>a b. due_date (out ! i) = Some a \<and> due_date (out ! j) = Some b \<longrightarrow> a \<le> b)
     \<and> (due_date (out ! i) = due_date (out ! j) \<longrightarrow> priority (out ! i) \<le> priority (out ! j))"
proof -
  have "sorted (map (\<lambda>x. (due_date x = None, due_date x, priority x)) out)"
    unfolding out_def by (rule sorted_sort_key)
  from sorted_nth_mono [OF this, of i j] assms(2,3)
  have "(due_date (out ! i) = None, due_date (out ! i), priority (out ! i))
        \<le> (due_date (out ! j) = None, due_date (out ! j), priority (out ! j))"
    by simp
  then show ?thesis
    unfolding key_le by auto
qed

text \<open>
  C1. The claim is that tasks with due dates are displayed in ascending order of their due
  dates. The code compares the due dates as the strings that \<^verbatim>\<open>--due\<close> stored, written day
  first, so the display is not in the order of the dates. Three runs of the program on a
  directory without a file: \<^verbatim>\<open>--add "File taxes" --due 01/12/2023\<close>, then
  \<^verbatim>\<open>--add "Pay rent" --due 01/01/2024\<close>, then \<^verbatim>\<open>--list\<close>. Both tasks are open and of priority
  1; the listing shows the task due on 1 January 2024 before the task due on 1 December
  2023.
\<close>

theorem list_shows_later_due_date_first:
  "main (example_rt\<lparr>uuid4 := 5, now := 250\<rparr>)
        (no_flags\<lparr>arg_add := Some ''File taxes'', arg_due := Some ''01/12/2023''\<rparr>) no_file
     = (Exit 0, stored (Pickle [taxes]),
        [Print (CreatedTask 5), Write ''.todo.pickle'' (Pickle [taxes])])
   \<and> main (example_rt\<lparr>uuid4 := 3, now := 300\<rparr>)
          (no_flags\<lparr>arg_add := Some ''Pay rent'', arg_due := Some ''01/01/2024''\<rparr>)
          (stored (Pickle [taxes]))
     = (Exit 0, stored (Pickle [taxes, rent]),
        [Print (CreatedTask 3), Write ''.todo.pickle'' (Pickle [taxes, rent])])
   \<and> fst (main example_rt (no_flags\<lparr>arg_list := True\<rparr>) (stored (Pickle [taxes, rent]))) = Exit 0
   \<and> shown (printed_lines (snd (snd
        (main example_rt (no_flags\<lparr>arg_list := True\<rparr>) (stored (Pickle [taxes, rent]))))))
     = [rent, taxes]
   \<and> due_date rent = Some ''01/01/2024'' \<and> due_date taxes = Some ''01/12/2023''
   \<and> completed rent = None \<and> completed taxes = None"
  by (simp add: main_def action_def Tasks_init_def open_rb_def except_def pickle_load_def
      pickle_dump_def pickle_tasks_def todo_pickle_def Tasks_add_def Task_init_def
      Tasks_list_def shown_print_tasks printed_lines_map_Print example_defs example_fs_defs)

subsection \<open>The search loop of \<^verbatim>\<open>done\<close> and \<^verbatim>\<open>delete\<close>\<close>

lemma find_task_malformed:
  "parse s = None \<Longrightarrow> tasks \<noteq> [] \<Longrightarrow> find_task parse s tasks = Inl ValueError"
  by (cases tasks) simp_all

lemma find_task_absent:
  "parse s = Some u \<Longrightarrow> u \<notin> unique_id ` set tasks \<Longrightarrow> find_task parse s tasks = Inr None"
  by (induction tasks) auto

lemma find_task_first:
  "parse s = Some u \<Longrightarrow> i < length tasks \<Longrightarrow> unique_id (tasks ! i) = u
    \<Longrightarrow> \<forall>j<i. unique_id (tasks ! j) \<noteq> u \<Longrightarrow> find_task parse s tasks = Inr (Some i)"
proof (induction tasks arbitrary: i)
  case Nil
  then show ?case by simp
next
  case (Cons t ts)
  show ?case
  proof (cases i)
    case 0
    with Cons.prems show ?thesis by simp
  next
    case (Suc k)
    with Cons.prems have "unique_id t \<noteq> u" by auto
    moreover have "find_task parse s ts = Inr (Some k)"
      using Cons.prems Suc by (intro Cons.IH) auto
    ultimately show ?thesis using Cons.prems(1) Suc by simp
  qed
qed

lemma find_task_Some:
  "find_task parse s tasks = Inr (Some i) \<Longrightarrow>
   i < length tasks \<and> parse s = Some (unique_id (tasks ! i))
   \<and> (\<forall>j<i. unique_id (tasks ! j) \<noteq> unique_id (tasks ! i))"
proof (induction tasks arbitrary: i)
  case Nil
  then show ?case by simp
next
  case (Cons t ts)
  then show ?case
    by (auto split: option.splits if_splits sum.splits simp: nth_Cons less_Suc_eq_0_disj
        split: nat.splits)
qed

lemma find_task_error: "find_task parse s tasks = Inl e \<Longrightarrow> e = ValueError"
  by (induction tasks) (auto split: option.splits if_splits sum.splits)

text \<open>The task that \<^verbatim>\<open>delete\<close> removes is the one at the position found.\<close>

lemma remove1_first:
  "i < length xs \<Longrightarrow> \<forall>j<i. xs ! j \<noteq> xs ! i \<Longrightarrow>
   remove1 (xs ! i) xs = take i xs @ drop (Suc i) xs"
proof (induction xs arbitrary: i)
  case Nil
  then show ?case by simp
next
  case (Cons x xs)
  show ?case
  proof (cases i)
    case 0
    then show ?thesis by simp
  next
    case (Suc k)
    with Cons.prems have "x \<noteq> xs ! k" by auto
    moreover have "remove1 (xs ! k) xs = take k xs @ drop (Suc k) xs"
      using Cons.prems Suc by (intro Cons.IH) auto
    ultimately show ?thesis using Suc by simp
  qed
qed

lemma Tasks_delete_found:
  assumes "find_task (UUID rt) s tasks = Inr (Some i)"
  shows "Tasks_delete rt s tasks =
           Inr (take i tasks @ drop (Suc i) tasks, [Text (''Deleted task '' @ s)])"
proof -
  from find_task_Some [OF assms] have "i < length tasks"
    and "\<forall>j<i. tasks ! j \<noteq> tasks ! i" by auto
  then have "remove1 (tasks ! i) tasks = take i tasks @ drop (Suc i) tasks"
    by (rule remove1_first)
  with assms show ?thesis by (simp add: Tasks_delete_def)
qed

text \<open>
  C2, as stated, fails: an identifier that \<^verbatim>\<open>uuid.UUID\<close> rejects equals the id of no task,
  yet with a task in the collection \<^verbatim>\<open>done\<close> and \<^verbatim>\<open>delete\<close> raise \<^verbatim>\<open>ValueError\<close> and print
  no message.
\<close>

theorem unknown_id_counterexample:
  "UUID example_rt ''00000000'' \<noteq> Some (unique_id milk)
   \<and> Tasks_done example_rt ''00000000'' [milk] = Inl ValueError
   \<and> Tasks_delete example_rt ''00000000'' [milk] = Inl ValueError"
  by (simp add: Tasks_done_def Tasks_delete_def example_defs)

text \<open>
  C2, amended. For every identifier string that \<^verbatim>\<open>uuid.UUID\<close> accepts and whose value is
  the id of no task in the collection, and for every string when the collection is
  empty, \<^verbatim>\<open>done\<close> and \<^verbatim>\<open>delete\<close> return the collection as it was and print
  \<^verbatim>\<open>No task found with ID <string>.\<close>
\<close>

theorem unknown_id_not_found:
  assumes "tasks = [] \<or> (\<exists>u. UUID rt s = Some u \<and> u \<notin> unique_id ` set tasks)"
  shows "Tasks_done rt s tasks = Inr (tasks, [Text (''No task found with ID '' @ s @ ''.'')])
       \<and> Tasks_delete rt s tasks = Inr (tasks, [Text (''No task found with ID '' @ s @ ''.'')])"
proof -
  have "find_task (UUID rt) s tasks = Inr None"
    using assms by (auto simp: find_task_absent)
  then show ?thesis
    by (simp add: Tasks_done_def Tasks_delete_def)
qed

theorem unknown_id_not_found_witness:
  "UUID example_rt ''00000000-0000-0000-0000-000000000009'' = Some 9
   \<and> 9 \<notin> unique_id ` set [milk, report]
   \<and> Tasks_done example_rt ''00000000-0000-0000-0000-000000000009'' [milk, report]
       = Inr ([milk, report], [Text ''No task found with ID 00000000-0000-0000-0000-000000000009.''])
   \<and> Tasks_delete example_rt ''00000000-0000-0000-0000-000000000009'' [milk, report]
       = Inr ([milk, report], [Text ''No task found with ID 00000000-0000-0000-0000-000000000009.''])"
proof -
  have h: "UUID example_rt ''00000000-0000-0000-0000-000000000009'' = Some 9
           \<and> 9 \<notin> unique_id ` set [milk, report]"
    by (simp add: example_defs)
  then have "[milk, report] = []
      \<or> (\<exists>u. UUID example_rt ''00000000-0000-0000-0000-000000000009'' = Some u
               \<and> u \<notin> unique_id ` set [milk, report])"
    by blast
  from unknown_id_not_found [OF this] h show ?thesis by simp
qed

text \<open>
  C3, as stated, fails: on the empty collection the loop body never runs, \<^verbatim>\<open>uuid.UUID\<close> is
  not called, the not-found message is printed for a malformed identifier too, and
  \<^verbatim>\<open>main\<close> goes on to save and exits with status 0.
\<close>

theorem malformed_id_counterexample:
  "UUID example_rt ''00000000'' = None
   \<and> Tasks_done example_rt ''00000000'' [] = Inr ([], [Text ''No task found with ID 00000000.''])
   \<and> Tasks_delete example_rt ''00000000'' [] = Inr ([], [Text ''No task found with ID 00000000.''])
   \<and> fst (main example_rt (no_flags\<lparr>arg_done := Some ''00000000''\<rparr>) no_file) = Exit 0
   \<and> snd (snd (main example_rt (no_flags\<lparr>arg_done := Some ''00000000''\<rparr>) no_file))
       = [Print (Text ''No task found with ID 00000000.''), Write ''.todo.pickle'' (Pickle [])]"
  by (simp add: main_def action_def Tasks_init_def open_rb_def except_def pickle_tasks_def
      pickle_dump_def todo_pickle_def Tasks_done_def Tasks_delete_def example_defs
      example_fs_defs)

text \<open>
  C3, amended. For every input string that \<^verbatim>\<open>uuid.UUID\<close> rejects and every collection
  with at least one task, \<^verbatim>\<open>done\<close> and \<^verbatim>\<open>delete\<close> raise \<^verbatim>\<open>ValueError\<close> in the first
  iteration: nothing is printed and the collection is not changed. When \<^verbatim>\<open>main\<close> has loaded
  such a collection and the command line leads to \<^verbatim>\<open>done\<close> or \<^verbatim>\<open>delete\<close> with such a
  (non-empty) string, the exception is not caught: the process ends with it, having
  printed and written nothing, and the file system is as it was.
\<close>

theorem malformed_id_raises:
  assumes "UUID rt s = None" and "tasks \<noteq> []"
  shows "Tasks_done rt s tasks = Inl ValueError \<and> Tasks_delete rt s tasks = Inl ValueError
       \<and> (Tasks_init fs = Inr tasks \<and> \<not> truthy (arg_add args) \<and> \<not> arg_list args
            \<and> \<not> truthy (arg_query args) \<and> s \<noteq> []
            \<and> (arg_done args = Some s \<or> \<not> truthy (arg_done args) \<and> arg_delete args = Some s)
          \<longrightarrow> main rt args fs = (Uncaught ValueError, fs, []))"
proof -
  have f: "find_task (UUID rt) s tasks = Inl ValueError"
    using assms by (rule find_task_malformed)
  have d: "Tasks_done rt s tasks = Inl ValueError"
    by (simp add: Tasks_done_def f)
  have e: "Tasks_delete rt s tasks = Inl ValueError"
    by (simp add: Tasks_delete_def f)
  have "main rt args fs = (Uncaught ValueError, fs, [])"
    if "Tasks_init fs = Inr tasks" "\<not> truthy (arg_add args)" "\<not> arg_list args"
       "\<not> truthy (arg_query args)" "s \<noteq> []"
       "arg_done args = Some s \<or> \<not> truthy (arg_done args) \<and> arg_delete args = Some s"
  proof -
    have "action rt args tasks = Inl ValueError"
      using that d e by (auto simp: action_def)
    with that(1) show ?thesis by (simp add: main_def)
  qed
  with d e show ?thesis by blast
qed

theorem malformed_id_raises_witness:
  "UUID example_rt ''00000000'' = None \<and> [milk] \<noteq> []
   \<and> Tasks_done example_rt ''00000000'' [milk] = Inl ValueError
   \<and> Tasks_delete example_rt ''00000000'' [milk] = Inl ValueError
   \<and> main example_rt (no_flags\<lparr>arg_done := Some ''00000000''\<rparr>) (stored (Pickle [milk]))
       = (Uncaught ValueError, stored (Pickle [milk]), [])"
proof -
  have h1: "UUID example_rt ''00000000'' = None" by (simp add: example_defs)
  have h2: "[milk] \<noteq> []" by simp
  have h3: "Tasks_init (stored (Pickle [milk])) = Inr [milk]"
    by (simp add: Tasks_init_def open_rb_def except_def pickle_load_def example_fs_defs)
  have h4: "\<not> truthy (arg_add (no_flags\<lparr>arg_done := Some ''00000000''\<rparr>))
            \<and> \<not> arg_list (no_flags\<lparr>arg_done := Some ''00000000''\<rparr>)
            \<and> \<not> truthy (arg_query (no_flags\<lparr>arg_done := Some ''00000000''\<rparr>))
            \<and> ''00000000'' \<noteq> []
            \<and> arg_done (no_flags\<lparr>arg_done := Some ''00000000''\<rparr>) = Some ''00000000''"
    by (simp add: example_defs)
  from malformed_id_raises [OF h1 h2, of "stored (Pickle [milk])"
      "no_flags\<lparr>arg_done := Some ''00000000''\<rparr>"] h1 h3 h4
  show ?thesis by simp
qed

subsection \<open>Loading\<close>







subsection \<open>One run of \<^verbatim>\<open>main\<close>\<close>

lemma main_after_action:
  assumes "Tasks_init fs = Inr tasks" and "action rt args tasks = Inr (tasks', printed)"
  shows "main rt args fs =
           (if may_write fs todo_pickle
            then (Exit 0, fs\<lparr>holds := (holds fs)(todo_pickle \<mapsto> pickle_dump tasks')\<rparr>,
                  map Print printed @ [Write todo_pickle (pickle_dump tasks')])
            else (Uncaught PermissionError, fs, map Print printed))"
  using assms by (simp add: main_def pickle_tasks_def del: fun_upd_apply)

lemma filter_is_Write_Print: "filter is_Write (map Print ls) = []"
  by (induction ls) simp_all

text \<open>An action that does not complete has raised \<^verbatim>\<open>ValueError\<close> in \<^verbatim>\<open>done\<close> or \<^verbatim>\<open>delete\<close>.\<close>

lemma action_error: "action rt args tasks = Inl e \<Longrightarrow> e = ValueError"
  by (auto simp: action_def Tasks_done_def Tasks_delete_def
      split: if_splits sum.splits option.splits dest: find_task_error)




subsection \<open>\<^verbatim>\<open>query\<close>\<close>

lemma emit_per_term:
  "concat (map (\<lambda>term. if P term then [task] else []) terms)
     = replicate (length (filter P terms)) task"
  by (induction terms) simp_all

lemma shown_Tasks_query:
  "shown (snd (Tasks_query rt terms tasks)) =
     concat (map (\<lambda>task. replicate
                   (length [term \<leftarrow> terms. sublist (str_lower rt term) (str_lower rt (name task))])
                   task)
                 (sort_key (\<lambda>x. (due_date x = None, due_date x, priority x))
                    [task \<leftarrow> tasks. completed task = None]))"
  by (simp add: Tasks_query_def shown_print_tasks emit_per_term)

lemma count_list_replicate: "count_list (replicate n x) y = (if x = y then n else 0)"
  by (induction n) auto

lemma count_list_repeat:
  "count_list (concat (map (\<lambda>x. replicate (f x) x) xs)) y = count_list xs y * f y"
  by (induction xs) (simp_all add: count_list_replicate)

lemma count_list_sort_key: "count_list (sort_key f xs) y = count_list xs y"
proof -
  have "count (mset (sort_key f xs)) y = count (mset xs) y" by simp
  then show ?thesis by (simp only: count_mset)
qed

lemma length_filter_lowered:
  "length [term \<leftarrow> terms. sublist (f term) n] = length [l \<leftarrow> map f terms. sublist l n]"
  by (induction terms) simp_all

text \<open>
  C5, as stated, fails on a term sequence with a repeated term: the task below matches
  one distinct supplied term and is emitted twice.
\<close>

theorem query_counterexample:
  "set [''milk'', ''milk''] = {''milk''}
   \<and> shown (snd (Tasks_query example_rt [''milk'', ''milk''] [milk])) = [milk, milk]"
  by (simp add: Tasks_query_def shown_print_tasks milk_def example_rt_def example_lower_def
      sublist_code prefix_code)

text \<open>
  C5, amended. For every sequence of query terms and every collection, \<^verbatim>\<open>query\<close> leaves
  the collection as it is and displays the tasks that \<^verbatim>\<open>list()\<close> displays, in that order,
  each once for every entry of the term sequence whose lower-cased text occurs in the
  lower-cased name, a repeated entry counting each time. So a task is emitted exactly when
  it is an open task of the collection and some term matches it; it is emitted as many
  times as it occurs among the open tasks, times the number of matching entries, which is
  the number of distinct matching terms when no term is supplied twice; and two term
  sequences that differ only in the case of their letters (they agree once lower-cased)
  give the same display.
\<close>

theorem query_emits_per_matching_term:
  "fst (Tasks_query rt terms tasks) = tasks
   \<and> shown (snd (Tasks_query rt terms tasks)) =
       concat (map (\<lambda>task. replicate
                     (length [term \<leftarrow> terms.
                                sublist (str_lower rt term) (str_lower rt (name task))]) task)
                   (shown (snd (Tasks_list tasks))))
   \<and> count_list (shown (snd (Tasks_query rt terms tasks))) task =
       count_list [t \<leftarrow> tasks. completed t = None] task
       * length [term \<leftarrow> terms. sublist (str_lower rt term) (str_lower rt (name task))]
   \<and> (task \<in> set (shown (snd (Tasks_query rt terms tasks))) \<longleftrightarrow>
        task \<in> set tasks \<and> completed task = None
        \<and> (\<exists>term \<in> set terms. sublist (str_lower rt term) (str_lower rt (name task))))
   \<and> (distinct terms \<longrightarrow>
        length [term \<leftarrow> terms. sublist (str_lower rt term) (str_lower rt (name task))]
        = card {term \<in> set terms. sublist (str_lower rt term) (str_lower rt (name task))})
   \<and> (map (str_lower rt) terms = map (str_lower rt) terms' \<longrightarrow>
        shown (snd (Tasks_query rt terms tasks)) = shown (snd (Tasks_query rt terms' tasks)))"
proof -
  let ?m = "\<lambda>term. sublist (str_lower rt term) (str_lower rt (name task))"
  have a: "fst (Tasks_query rt terms tasks) = tasks"
    by (simp add: Tasks_query_def Let_def)
  have c: "count_list (shown (snd (Tasks_query rt terms tasks))) task =
       count_list [t \<leftarrow> tasks. completed t = None] task * length (filter ?m terms)"
    unfolding shown_Tasks_query by (simp only: count_list_repeat count_list_sort_key)
  have m: "task \<in> set (shown (snd (Tasks_query rt terms tasks))) \<longleftrightarrow>
        task \<in> set tasks \<and> completed task = None \<and> (\<exists>term \<in> set terms. ?m term)"
  proof -
    have "task \<in> set (shown (snd (Tasks_query rt terms tasks)))
          \<longleftrightarrow> count_list (shown (snd (Tasks_query rt terms tasks))) task \<noteq> 0"
      by (simp only: count_list_0_iff) simp
    also have "\<dots> \<longleftrightarrow> count_list [t \<leftarrow> tasks. completed t = None] task \<noteq> 0
                      \<and> length (filter ?m terms) \<noteq> 0"
      by (simp only: c) simp
    also have "count_list [t \<leftarrow> tasks. completed t = None] task \<noteq> 0
               \<longleftrightarrow> task \<in> set tasks \<and> completed task = None"
      by (simp only: count_list_0_iff) simp
    also have "length (filter ?m terms) \<noteq> 0 \<longleftrightarrow> (\<exists>term \<in> set terms. ?m term)"
      by (simp add: filter_empty_conv)
    finally show ?thesis by blast
  qed
  have d: "length (filter ?m terms) = card {term \<in> set terms. ?m term}" if "distinct terms"
  proof -
    have "{term \<in> set terms. ?m term} = set (filter ?m terms)"
      by auto
    with that show ?thesis
      by (simp only: distinct_card [OF distinct_filter [OF that]])
  qed
  have e: "shown (snd (Tasks_query rt terms tasks)) = shown (snd (Tasks_query rt terms' tasks))"
    if "map (str_lower rt) terms = map (str_lower rt) terms'"
  proof -
    have "length [term \<leftarrow> terms. sublist (str_lower rt term) n]
          = length [term \<leftarrow> terms'. sublist (str_lower rt term) n]" for n
    proof -
      have "length [term \<leftarrow> terms. sublist (str_lower rt term) n]
            = length [l \<leftarrow> map (str_lower rt) terms. sublist l n]"
        by (rule length_filter_lowered)
      also have "\<dots> = length [l \<leftarrow> map (str_lower rt) terms'. sublist l n]"
        by (simp only: that)
      also have "\<dots> = length [term \<leftarrow> terms'. sublist (str_lower rt term) n]"
        by (rule length_filter_lowered [symmetric])
      finally show ?thesis .
    qed
    then show ?thesis
      by (simp only: shown_Tasks_query)
  qed
  from a c m d e show ?thesis
    by (simp add: shown_Tasks_query shown_Tasks_list)
qed

text \<open>
  Four different terms on the five tasks. \<^verbatim>\<open>MILK\<close> and \<^verbatim>\<open>buy\<close> occur in \<^verbatim>\<open>Buy milk\<close> whatever
  the case of the letters, \<^verbatim>\<open>RENT\<close> in \<^verbatim>\<open>Pay rent\<close>, and \<^verbatim>\<open>ann\<close> only in the completed
  \<^verbatim>\<open>Call Ann\<close>, which is not displayed. \<^verbatim>\<open>list()\<close> shows the open tasks; \<^verbatim>\<open>query\<close> shows, in
  that order, \<^verbatim>\<open>Pay rent\<close> once and \<^verbatim>\<open>Buy milk\<close> twice.
\<close>

theorem query_emits_per_matching_term_witness:
  "distinct [''MILK'', ''buy'', ''RENT'', ''ann'']
   \<and> shown (snd (Tasks_list [report, call, milk, rent])) = [rent, milk, report]
   \<and> shown (snd (Tasks_query example_rt [''MILK'', ''buy'', ''RENT'', ''ann'']
                   [report, call, milk, rent]))
       = [rent, milk, milk]
   \<and> card {term \<in> set [''MILK'', ''buy'', ''RENT'', ''ann''].
             sublist (str_lower example_rt term) (str_lower example_rt (name milk))} = 2
   \<and> map (str_lower example_rt) [''MILK'', ''buy'', ''RENT'', ''ann'']
       = map (str_lower example_rt) [''milk'', ''BUY'', ''Rent'', ''Ann'']
   \<and> shown (snd (Tasks_query example_rt [''milk'', ''BUY'', ''Rent'', ''Ann'']
                   [report, call, milk, rent]))
       = [rent, milk, milk]"
proof -
  let ?terms = "[''MILK'', ''buy'', ''RENT'', ''ann'']"
  let ?terms' = "[''milk'', ''BUY'', ''Rent'', ''Ann'']"
  have d: "distinct ?terms" by simp
  have l: "shown (snd (Tasks_list [report, call, milk, rent])) = [rent, milk, report]"
    by (simp add: shown_Tasks_list example_defs)
  have n: "length [term \<leftarrow> ?terms.
              sublist (str_lower example_rt term) (str_lower example_rt (name milk))] = 2"
    by (simp add: milk_def example_rt_def example_lower_def sublist_code prefix_code)
  have q: "shown (snd (Tasks_query example_rt ?terms [report, call, milk, rent]))
       = [rent, milk, milk]"
    by (simp add: Tasks_query_def shown_print_tasks example_defs sublist_code prefix_code)
  have c: "map (str_lower example_rt) ?terms = map (str_lower example_rt) ?terms'"
    by (simp add: example_rt_def example_lower_def)
  note t = query_emits_per_matching_term [of example_rt ?terms "[report, call, milk, rent]"
      milk ?terms']
  from t [THEN conjunct2, THEN conjunct2, THEN conjunct2, THEN conjunct2, THEN conjunct1,
      rule_format, OF d]
  have "card {term \<in> set ?terms.
             sublist (str_lower example_rt term) (str_lower example_rt (name milk))} = 2"
    by (simp only: n)
  moreover from t [THEN conjunct2, THEN conjunct2, THEN conjunct2, THEN conjunct2,
      THEN conjunct2, rule_format, OF c]
  have "shown (snd (Tasks_query example_rt ?terms' [report, call, milk, rent]))
       = [rent, milk, milk]"
    by (simp only: q)
  ultimately show ?thesis using d l q c by simp
qed

subsection \<open>\<^verbatim>\<open>report\<close> and \<^verbatim>\<open>list\<close>\<close>

text \<open>
  C6. \<^verbatim>\<open>report()\<close> leaves the stored collection sorted by the three-part key: the same
  tasks, in an order in which a task without a due date is followed only by such tasks,
  due dates do not descend and priorities do not descend among tasks with the same due
  date (or none); the rows of its table are the stored collection in the new order.
  \<^verbatim>\<open>list()\<close> leaves the stored collection in the order it had and displays the open tasks
  only, in the order in which \<^verbatim>\<open>report()\<close> leaves them. So what a run of \<^verbatim>\<open>main\<close> saves
  after the report is the sorted collection, and after the listing the collection in the
  order in which it was loaded (where the file may not be written, the run saves nothing).
\<close>

theorem report_sorts_in_place_list_does_not:
  "mset (fst (Tasks_report tasks)) = mset tasks
   \<and> (\<forall>i j. i < j \<and> j < length (fst (Tasks_report tasks)) \<longrightarrow>
        (due_date (fst (Tasks_report tasks) ! i) = None
           \<longrightarrow> due_date (fst (Tasks_report tasks) ! j) = None)
      \<and> (\<forall>a b. due_date (fst (Tasks_report tasks) ! i) = Some a
                \<and> due_date (fst (Tasks_report tasks) ! j) = Some b \<longrightarrow> a \<le> b)
      \<and> (due_date (fst (Tasks_report tasks) ! i) = due_date (fst (Tasks_report tasks) ! j)
           \<longrightarrow> priority (fst (Tasks_report tasks) ! i) \<le> priority (fst (Tasks_report tasks) ! j)))
   \<and> shown (snd (Tasks_report tasks)) = fst (Tasks_report tasks)
   \<and> fst (Tasks_list tasks) = tasks
   \<and> shown (snd (Tasks_list tasks)) = [t \<leftarrow> fst (Tasks_report tasks). completed t = None]
   \<and> mset (shown (snd (Tasks_list tasks))) = mset [t \<leftarrow> tasks. completed t = None]
   \<and> (Tasks_init fs = Inr tasks \<and> action rt args tasks = Inr (Tasks_report tasks) \<longrightarrow>
        filter is_Write (snd (snd (main rt args fs)))
        = (if may_write fs todo_pickle
           then [Write todo_pickle (pickle_dump (fst (Tasks_report tasks)))] else []))
   \<and> (Tasks_init fs = Inr tasks \<and> action rt args tasks = Inr (Tasks_list tasks) \<longrightarrow>
        filter is_Write (snd (snd (main rt args fs)))
        = (if may_write fs todo_pickle then [Write todo_pickle (pickle_dump tasks)] else []))"
proof -
  let ?key = "\<lambda>x::task. (due_date x = None, due_date x, priority x)"
  have r: "fst (Tasks_report tasks) = sort_key ?key tasks"
    by (rule fst_Tasks_report)
  have p: "mset (fst (Tasks_report tasks)) = mset tasks"
    by (simp add: r)
  have o: "(due_date (fst (Tasks_report tasks) ! i) = None
           \<longrightarrow> due_date (fst (Tasks_report tasks) ! j) = None)
      \<and> (\<forall>a b. due_date (fst (Tasks_report tasks) ! i) = Some a
                \<and> due_date (fst (Tasks_report tasks) ! j) = Some b \<longrightarrow> a \<le> b)
      \<and> (due_date (fst (Tasks_report tasks) ! i) = due_date (fst (Tasks_report tasks) ! j)
           \<longrightarrow> priority (fst (Tasks_report tasks) ! i) \<le> priority (fst (Tasks_report tasks) ! j))"
    if "i < j" "j < length (fst (Tasks_report tasks))" for i j
    using sorted_by_key [of i j tasks] that unfolding r by simp
  have s: "shown (snd (Tasks_report tasks)) = fst (Tasks_report tasks)"
    by (simp add: r shown_Tasks_report)
  have l: "shown (snd (Tasks_list tasks)) = [t \<leftarrow> fst (Tasks_report tasks). completed t = None]"
    by (simp add: shown_Tasks_list r filter_sort)
  have m: "mset (shown (snd (Tasks_list tasks))) = mset [t \<leftarrow> tasks. completed t = None]"
    by (simp add: shown_Tasks_list)
  have b: "filter is_Write (snd (snd (main rt args fs)))
        = (if may_write fs todo_pickle
           then [Write todo_pickle (pickle_dump (fst (Tasks_report tasks)))] else [])"
    if "Tasks_init fs = Inr tasks" "action rt args tasks = Inr (Tasks_report tasks)"
  proof -
    have "action rt args tasks = Inr (fst (Tasks_report tasks), snd (Tasks_report tasks))"
      using that(2) by simp
    from main_after_action [OF that(1) this] show ?thesis
      by (simp add: filter_is_Write_Print del: fun_upd_apply)
  qed
  have c: "filter is_Write (snd (snd (main rt args fs)))
        = (if may_write fs todo_pickle then [Write todo_pickle (pickle_dump tasks)] else [])"
    if "Tasks_init fs = Inr tasks" "action rt args tasks = Inr (Tasks_list tasks)"
  proof -
    have "action rt args tasks = Inr (tasks, snd (Tasks_list tasks))"
      using that(2) fst_Tasks_list [of tasks] by (simp add: prod_eq_iff)
    from main_after_action [OF that(1) this] show ?thesis
      by (simp add: filter_is_Write_Print del: fun_upd_apply)
  qed
  from p o s l m b c fst_Tasks_list [of tasks] show ?thesis
    by blast
qed

text \<open>
  The same stored file, once reported and once listed. The report displays and writes
  back all five tasks in sorted order, the completed \<^verbatim>\<open>Call Ann\<close> among them; the listing
  displays the four open tasks in that order and writes the five back in the order found.
\<close>

theorem report_sorts_in_place_list_does_not_witness:
  "Tasks_init (stored (Pickle [report, call, taxes, milk, rent]))
     = Inr [report, call, taxes, milk, rent]
   \<and> action example_rt (no_flags\<lparr>arg_report := True\<rparr>) [report, call, taxes, milk, rent]
       = Inr (Tasks_report [report, call, taxes, milk, rent])
   \<and> action example_rt (no_flags\<lparr>arg_list := True\<rparr>) [report, call, taxes, milk, rent]
       = Inr (Tasks_list [report, call, taxes, milk, rent])
   \<and> fst (Tasks_report [report, call, taxes, milk, rent]) = [rent, milk, taxes, call, report]
   \<and> shown (snd (Tasks_report [report, call, taxes, milk, rent]))
       = [rent, milk, taxes, call, report]
   \<and> fst (Tasks_list [report, call, taxes, milk, rent]) = [report, call, taxes, milk, rent]
   \<and> shown (snd (Tasks_list [report, call, taxes, milk, rent])) = [rent, milk, taxes, report]
   \<and> filter is_Write (snd (snd (main example_rt (no_flags\<lparr>arg_report := True\<rparr>)
                                   (stored (Pickle [report, call, taxes, milk, rent])))))
       = [Write todo_pickle (Pickle [rent, milk, taxes, call, report])]
   \<and> filter is_Write (snd (snd (main example_rt (no_flags\<lparr>arg_list := True\<rparr>)
                                   (stored (Pickle [report, call, taxes, milk, rent])))))
       = [Write todo_pickle (Pickle [report, call, taxes, milk, rent])]"
proof -
  let ?ts = "[report, call, taxes, milk, rent]"
  let ?fs = "stored (Pickle ?ts)"
  have i: "Tasks_init ?fs = Inr ?ts"
    by (simp add: Tasks_init_def open_rb_def except_def pickle_load_def example_fs_defs)
  have r: "action example_rt (no_flags\<lparr>arg_report := True\<rparr>) ?ts = Inr (Tasks_report ?ts)"
    by (simp add: action_def no_flags_def)
  have l: "action example_rt (no_flags\<lparr>arg_list := True\<rparr>) ?ts = Inr (Tasks_list ?ts)"
    by (simp add: action_def no_flags_def)
  have s: "fst (Tasks_report ?ts) = [rent, milk, taxes, call, report]"
    by (simp add: fst_Tasks_report example_defs)
  have w: "may_write ?fs todo_pickle" by (simp add: example_fs_defs)
  have c: "completed rent = None" "completed milk = None" "completed taxes = None"
    "completed call \<noteq> None" "completed report = None"
    by (simp_all add: example_defs)
  note t = report_sorts_in_place_list_does_not [of ?ts ?fs example_rt]
  from t [of "no_flags\<lparr>arg_report := True\<rparr>"] s
  have 1: "shown (snd (Tasks_report ?ts)) = [rent, milk, taxes, call, report]"
    and 2: "fst (Tasks_list ?ts) = ?ts"
    by simp_all
  from t [of "no_flags\<lparr>arg_report := True\<rparr>"] s c
  have 3: "shown (snd (Tasks_list ?ts)) = [rent, milk, taxes, report]"
    by simp
  from t [of "no_flags\<lparr>arg_report := True\<rparr>"] i r w s
  have 4: "filter is_Write (snd (snd (main example_rt (no_flags\<lparr>arg_report := True\<rparr>) ?fs)))
       = [Write todo_pickle (Pickle [rent, milk, taxes, call, report])]"
    by (simp add: pickle_dump_def)
  from t [of "no_flags\<lparr>arg_list := True\<rparr>"] i l w
  have 5: "filter is_Write (snd (snd (main example_rt (no_flags\<lparr>arg_list := True\<rparr>) ?fs)))
       = [Write todo_pickle (Pickle ?ts)]"
    by (simp add: pickle_dump_def)
  from i r l s 1 2 3 4 5 show ?thesis by simp
qed

subsection \<open>\<^verbatim>\<open>add\<close>\<close>

text \<open>
  C8. \<^verbatim>\<open>add\<close> with the empty name returns the collection as it was and prints the error
  message, so that saving afterwards writes what saving before would have written. With
  any other name it appends one task to the collection, which becomes one longer: the
  task has the name, priority and due date given, the clock's time as creation time, no
  completion time and a fresh id, and the message \<^verbatim>\<open>Created task <id>\<close> reports that id.
\<close>

theorem add_rejects_empty_name_else_appends:
  "Tasks_add rt [] prio due tasks = (tasks, [Text add_error])
   \<and> pickle_tasks (fst (Tasks_add rt [] prio due tasks)) fs = pickle_tasks tasks fs
   \<and> (nm \<noteq> [] \<longrightarrow>
        Tasks_add rt nm prio due tasks =
          (tasks @ [\<lparr>created = now rt, completed = None, name = nm, unique_id = uuid4 rt,
                      priority = prio, due_date = due\<rparr>],
           [CreatedTask (uuid4 rt)])
        \<and> length (fst (Tasks_add rt nm prio due tasks)) = Suc (length tasks))"
  by (simp add: Tasks_add_def Task_init_def)

theorem add_rejects_empty_name_else_appends_witness:
  "''Buy milk'' \<noteq> []
   \<and> Tasks_add example_rt ''Buy milk'' 2 (Some ''01/01/2024'') [report]
       = ([report, milk\<lparr>created := 500, unique_id := 9\<rparr>], [CreatedTask 9])
   \<and> length (fst (Tasks_add example_rt ''Buy milk'' 2 (Some ''01/01/2024'') [report])) = 2"
  using add_rejects_empty_name_else_appends
    [of example_rt 2 "Some ''01/01/2024''" "[report]" no_file "''Buy milk''"]
  by (simp add: example_rt_def milk_def)

subsection \<open>\<^verbatim>\<open>done\<close> on a completed task\<close>

text \<open>
  C9, as stated, fails when the clock shows an earlier time at the second call than the
  time stored (the local clock was set back, or summer time ended in between): the task
  completed at time 90 is completed again at time 80, and the new value is the earlier
  one.
\<close>

theorem done_again_counterexample:
  "completed call = Some 90
   \<and> now (example_rt\<lparr>now := 80\<rparr>) = 80
   \<and> Tasks_done (example_rt\<lparr>now := 80\<rparr>) ''00000000-0000-0000-0000-000000000004'' [milk, call]
       = Inr ([milk, call\<lparr>completed := Some 80\<rparr>],
              [Text ''Completed task 00000000-0000-0000-0000-000000000004''])
   \<and> Some (80::int) < Some 90"
  by (simp add: Tasks_done_def completed_task_def example_defs)

text \<open>
  C9, amended. When the identifier is that of a task already completed (the first task
  with that id, at position \<open>i\<close>), \<^verbatim>\<open>done\<close> succeeds again: it prints
  \<^verbatim>\<open>Completed task <string>\<close> and returns the collection with the completion time of that
  task replaced by the value of \<^verbatim>\<open>datetime.now()\<close> at this call, every other field of the
  task and every other task as before. The new value is later than the old one exactly
  when the clock shows a later time than the one stored.
\<close>

theorem done_again_overwrites_completed:
  assumes "UUID rt s = Some u" and "i < length tasks" and "unique_id (tasks ! i) = u"
    and "\<forall>j<i. unique_id (tasks ! j) \<noteq> u"
    and "completed (tasks ! i) = Some t"
  shows "Tasks_done rt s tasks =
           Inr (tasks[i := (tasks ! i)\<lparr>completed := Some (now rt)\<rparr>],
                [Text (''Completed task '' @ s)])
         \<and> completed (tasks[i := (tasks ! i)\<lparr>completed := Some (now rt)\<rparr>] ! i) = Some (now rt)
         \<and> (completed (tasks ! i)
              < completed (tasks[i := (tasks ! i)\<lparr>completed := Some (now rt)\<rparr>] ! i)
            \<longleftrightarrow> t < now rt)"
proof -
  have "find_task (UUID rt) s tasks = Inr (Some i)"
    using assms(1-4) by (rule find_task_first)
  then show ?thesis
    using assms(2,5) by (simp add: Tasks_done_def completed_task_def)
qed

theorem done_again_overwrites_completed_witness:
  "UUID example_rt ''00000000-0000-0000-0000-000000000004'' = Some 4
   \<and> (1::nat) < length [milk, call] \<and> unique_id ([milk, call] ! 1) = 4
   \<and> unique_id ([milk, call] ! 0) \<noteq> 4
   \<and> completed ([milk, call] ! 1) = Some 90 \<and> now example_rt = 500
   \<and> Tasks_done example_rt ''00000000-0000-0000-0000-000000000004'' [milk, call]
       = Inr ([milk, call\<lparr>completed := Some 500\<rparr>],
              [Text ''Completed task 00000000-0000-0000-0000-000000000004''])"
proof -
  have h1: "UUID example_rt ''00000000-0000-0000-0000-000000000004'' = Some 4"
    by (simp add: example_defs)
  have h2: "(1::nat) < length [milk, call]" by simp
  have h3: "unique_id ([milk, call] ! 1) = 4" by (simp add: call_def)
  have h4: "\<forall>j<1::nat. unique_id ([milk, call] ! j) \<noteq> 4" by (simp add: milk_def)
  have h5: "completed ([milk, call] ! 1) = Some 90" by (simp add: call_def)
  have h6: "now example_rt = 500" by (simp add: example_rt_def)
  from done_again_overwrites_completed [OF h1 h2 h3 h4 h5, THEN conjunct1] h1 h2 h3 h4 h5 h6
  show ?thesis by simp
qed

subsection \<open>Saving and loading again\<close>








end
